theory Spec2Isabelle
  imports Main
begin

section \<open>The Python built-ins used by make-click-through.py\<close>

text \<open>
  The script is Python 3.  A Python \<open>str\<close> is modelled as a \<^typ>\<open>string\<close> whose characters are
  the code points below 256; Python's \<open>int\<close> is \<^typ>\<open>int\<close>.  An exception is a value: the class
  \<open>ValueError\<close> raised by \<open>int()\<close>, or any other subclass of \<open>Exception\<close>, such as the ones
  raised inside the python-xlib binding.  Each carries the text that \<open>str(e)\<close> gives.
\<close>

datatype exn = ValueError string | OtherException string

fun str_exn :: "exn \<Rightarrow> string" where
  "str_exn (ValueError msg) = msg"
| "str_exn (OtherException msg) = msg"

subsection \<open>Rendering numbers and strings\<close>

definition digit_char :: "nat \<Rightarrow> char" where
  "digit_char d = ''0123456789abcdef'' ! d"

text \<open>The digits of \<open>n\<close> in base \<open>b\<close>, most significant first (\<open>b\<close> is 10 or 16 here).\<close>

function to_digits :: "nat \<Rightarrow> nat \<Rightarrow> string" where
  "to_digits b n =
     (if b < 2 \<or> n < b then [digit_char n] else to_digits b (n div b) @ [digit_char (n mod b)])"
  by pat_completeness auto
termination
  by (relation "measure snd") auto

declare to_digits.simps [simp del]

text \<open>\<open>str(n)\<close> for a non-negative \<open>n\<close>, and the built-in \<open>hex(n)\<close>.\<close>

definition str_nat :: "nat \<Rightarrow> string" where
  "str_nat n = to_digits 10 n"

definition py_hex :: "int \<Rightarrow> string" where
  "py_hex n = (if n < 0 then ''-0x'' @ to_digits 16 (nat (- n)) else ''0x'' @ to_digits 16 (nat n))"

text \<open>
  \<open>repr(s)\<close> of a string: quoted with \<open>'\<close>, or with \<open>"\<close> when the string holds a \<open>'\<close> and no
  \<open>"\<close>; the quote and the backslash are escaped, tab, newline and carriage return are written
  \<open>\t\<close>, \<open>\n\<close>, \<open>\r\<close>, and every other non-printable code point (below 32, 127 to 160, 173) is
  written \<open>\xhh\<close>.
\<close>

definition repr_quote :: "string \<Rightarrow> char" where
  "repr_quote s = (if CHR 0x27 \<in> set s \<and> CHR 0x22 \<notin> set s then CHR 0x22 else CHR 0x27)"

definition hex_escape :: "char \<Rightarrow> string" where
  "hex_escape c = [CHR 0x5C, CHR ''x'', digit_char (of_char c div 16), digit_char (of_char c mod 16)]"

definition repr_char :: "char \<Rightarrow> char \<Rightarrow> string" where
  "repr_char q c =
     (let n = (of_char c :: nat) in
      if c = q \<or> c = CHR 0x5C then [CHR 0x5C, c]
      else if n = 9 then [CHR 0x5C, CHR ''t'']
      else if n = 10 then [CHR 0x5C, CHR ''n'']
      else if n = 13 then [CHR 0x5C, CHR ''r'']
      else if n < 32 \<or> n = 127 then hex_escape c
      else if n < 127 then [c]
      else if n \<le> 160 \<or> n = 173 then hex_escape c
      else [c])"

definition py_repr :: "string \<Rightarrow> string" where
  "py_repr s = (let q = repr_quote s in q # concat (map (repr_char q) s) @ [q])"

subsection \<open>\<open>int(s, base)\<close> on a string\<close>

text \<open>
  CPython's conversion (\<open>PyLong_FromUnicodeObject\<close> and \<open>PyLong_FromString\<close>, as of
  Python 3.11), for the bases 10 and 16 the script uses.  A string with a code point above 126
  is first rewritten: the spaces U+0085 and U+00A0 become an ASCII space, and the first other
  such code point becomes \<open>?\<close>, where the text is cut.
\<close>

definition Py_ISSPACE :: "char \<Rightarrow> bool" where
  "Py_ISSPACE c = (let n = (of_char c :: nat) in (9 \<le> n \<and> n \<le> 13) \<or> n = 32)"

definition Py_UNICODE_ISSPACE :: "char \<Rightarrow> bool" where
  "Py_UNICODE_ISSPACE c =
     (let n = (of_char c :: nat) in (9 \<le> n \<and> n \<le> 13) \<or> (28 \<le> n \<and> n \<le> 32) \<or> n = 133 \<or> n = 160)"

definition is_ascii :: "char \<Rightarrow> bool" where
  "is_ascii c = ((of_char c :: nat) < 128)"

fun to_ascii :: "string \<Rightarrow> string" where
  "to_ascii [] = []"
| "to_ascii (c # cs) =
     (if (of_char c :: nat) < 127 then c # to_ascii cs
      else if Py_UNICODE_ISSPACE c then CHR '' '' # to_ascii cs
      else [CHR ''?''])"

definition transform_decimal_and_space_to_ascii :: "string \<Rightarrow> string" where
  "transform_decimal_and_space_to_ascii u = (if list_all is_ascii u then u else to_ascii u)"

text \<open>The table \<open>_PyLong_DigitValue\<close>: 37 marks a character that is no digit in any base.\<close>

definition digit_value :: "char \<Rightarrow> nat" where
  "digit_value c =
     (let n = (of_char c :: nat) in
      if 48 \<le> n \<and> n \<le> 57 then n - 48
      else if 97 \<le> n \<and> n \<le> 122 then n - 87
      else if 65 \<le> n \<and> n \<le> 90 then n - 55
      else 37)"

text \<open>
  The scan over digits and underscores.  It stops at the first character that is neither; two
  underscores in a row and an underscore at the end of the run are syntax errors (\<open>None\<close>).
  The result is the digit values read and the text that is left.
\<close>

fun scan_digits :: "nat \<Rightarrow> bool \<Rightarrow> string \<Rightarrow> (nat list \<times> string) option" where
  "scan_digits base prev_underscore [] = (if prev_underscore then None else Some ([], []))"
| "scan_digits base prev_underscore (c # cs) =
     (if c = CHR ''_'' then
        (if prev_underscore then None else scan_digits base True cs)
      else if digit_value c < base then
        (case scan_digits base False cs of
           None \<Rightarrow> None
         | Some (ds, rest) \<Rightarrow> Some (digit_value c # ds, rest))
      else if prev_underscore then None
      else Some ([], c # cs))"

definition invalid_literal :: "nat \<Rightarrow> string \<Rightarrow> exn" where
  "invalid_literal base u =
     ValueError (''invalid literal for int() with base '' @ str_nat base @ '': '' @ take 200 (py_repr u))"

definition exceeds_limit :: "nat \<Rightarrow> nat \<Rightarrow> exn" where
  "exceeds_limit max_str_digits digits =
     ValueError (''Exceeds the limit ('' @ str_nat max_str_digits @
       '' digits) for integer string conversion: value has '' @ str_nat digits @
       '' digits; use sys.set_int_max_str_digits() to increase the limit'')"

definition strip_sign :: "string \<Rightarrow> int \<times> string" where
  "strip_sign s =
     (case s of
        [] \<Rightarrow> (1, [])
      | c # cs \<Rightarrow> if c = CHR ''+'' then (1, cs) else if c = CHR ''-'' then (- 1, cs) else (1, s))"

definition strip_prefix :: "nat \<Rightarrow> string \<Rightarrow> string" where
  "strip_prefix base s =
     (if base = 16 \<and> (take 2 s = ''0x'' \<or> take 2 s = ''0X'')
      then (if take 1 (drop 2 s) = ''_'' then drop 3 s else drop 2 s)
      else s)"

text \<open>
  \<open>max_str_digits\<close> is the interpreter's limit on the digits of a converted string
  (\<open>sys.get_int_max_str_digits()\<close>: 4300 unless configured, 0 for no limit).  It applies to
  base 10 and not to base 16, and never to 640 digits or fewer.
\<close>

definition py_int :: "nat \<Rightarrow> nat \<Rightarrow> string \<Rightarrow> exn + int" where
  "py_int max_str_digits base u =
     (let (sign, s) = strip_sign (dropWhile Py_ISSPACE (transform_decimal_and_space_to_ascii u));
          s = strip_prefix base s
      in if take 1 s = ''_'' then Inl (invalid_literal base u)
         else
           (case scan_digits base False s of
              None \<Rightarrow> Inl (invalid_literal base u)
            | Some (ds, rest) \<Rightarrow>
                if base \<noteq> 16 \<and> 640 < length ds \<and> 0 < max_str_digits \<and> max_str_digits < length ds
                then Inl (exceeds_limit max_str_digits (length ds))
                else if ds = [] then Inl (invalid_literal base u)
                else if dropWhile Py_ISSPACE rest \<noteq> [] then Inl (invalid_literal base u)
                else Inr (sign * int (foldl (\<lambda>a d. a * base + d) 0 ds))))"

section \<open>The display server, as the script sees it through python-xlib\<close>

text \<open>
  The constants the script names: the operations and kinds of the SHAPE extension
  (\<open>shape.SO_Set\<close>, \<open>shape.SK_Input\<close>) and the rectangle orderings of the core protocol
  (\<open>X.YXBanded\<close>).
\<close>

datatype shape_operation = SO_Set | SO_Union | SO_Intersect | SO_Subtract | SO_Invert

datatype shape_kind = SK_Bounding | SK_Clip | SK_Input

datatype rectangle_ordering = Unsorted | YSorted | YXSorted | YXBanded

record rectangle =
  rect_x :: int
  rect_y :: int
  rect_width :: int
  rect_height :: int

text \<open>
  The arguments of one \<open>window.shape_rectangles(...)\<close> call, in the order the script passes
  them, with the window the method is called on.
\<close>

record shape_request =
  window :: int
  operation :: shape_operation
  destination_kind :: shape_kind
  ordering :: rectangle_ordering
  x_offset :: int
  y_offset :: int
  rectangles :: "rectangle list"

text \<open>
  What a run does that can be observed from outside, in order: the calls into the binding and
  the lines printed to standard output.
\<close>

datatype event =
    Display
  | CreateResourceObject string int
  | HasExtension string
  | ShapeRectangles shape_request
  | Sync
  | Print string

text \<open>
  The surroundings of one run: whether the \<open>Xlib\<close> package can be imported, the interpreter's
  digit limit for \<open>int()\<close>, and what each call into the binding does: \<open>None\<close> when it returns,
  \<open>Some e\<close> when it raises \<open>e\<close>.  \<open>shape_names_raise\<close> is the evaluation of the method and of the
  arguments at lines 42 to 47, before the call: the names \<open>shape_rectangles\<close>, \<open>shape.SO_Set\<close>,
  \<open>shape.SK_Input\<close> and \<open>X.YXBanded\<close> are looked up in the binding, and a binding that lacks one
  of them raises \<open>AttributeError\<close> there.
\<close>

record environment =
  xlib_installed :: bool
  int_max_str_digits :: nat
  display_raises :: "exn option"
  create_resource_object_raises :: "string \<Rightarrow> int \<Rightarrow> exn option"
  has_extension_result :: "string \<Rightarrow> exn + bool"
  shape_names_raise :: "exn option"
  shape_rectangles_raises :: "shape_request \<Rightarrow> exn option"
  sync_raises :: "exn option"

subsection \<open>Statements that log what they do and may raise\<close>

type_synonym 'a io = "event list \<times> (exn + 'a)"

definition io_return :: "'a \<Rightarrow> 'a io" where
  "io_return x = ([], Inr x)"

definition io_bind :: "'a io \<Rightarrow> ('a \<Rightarrow> 'b io) \<Rightarrow> 'b io" where
  "io_bind m f =
     (case m of
        (tr, Inl e) \<Rightarrow> (tr, Inl e)
      | (tr, Inr x) \<Rightarrow> (case f x of (tr', r) \<Rightarrow> (tr @ tr', r)))"

definition io_call :: "event \<Rightarrow> exn option \<Rightarrow> unit io" where
  "io_call ev raises = ([ev], case raises of None \<Rightarrow> Inr () | Some e \<Rightarrow> Inl e)"

definition io_raise :: "exn option \<Rightarrow> unit io" where
  "io_raise raises = ([], case raises of None \<Rightarrow> Inr () | Some e \<Rightarrow> Inl e)"

definition io_query :: "event \<Rightarrow> exn + 'a \<Rightarrow> 'a io" where
  "io_query ev result = ([ev], result)"

definition io_eval :: "exn + 'a \<Rightarrow> 'a io" where
  "io_eval result = ([], result)"

definition io_print :: "string \<Rightarrow> unit io" where
  "io_print line = ([Print line], Inr ())"

section \<open>make-click-through.py\<close>

text \<open>The argument of \<open>make_click_through\<close>: a string (what \<open>__main__\<close> passes) or an integer.\<close>

datatype window_id = PyStr string | PyInt int

text \<open>Lines 23 to 29: the conversion of the window id.\<close>

definition startswith :: "string \<Rightarrow> string \<Rightarrow> bool" where
  "startswith s p = (take (length p) s = p)"

definition to_wid :: "environment \<Rightarrow> window_id \<Rightarrow> exn + int" where
  "to_wid env window_id =
     (case window_id of
        PyStr s \<Rightarrow>
          (if startswith s ''0x'' then py_int (int_max_str_digits env) 16 s
           else py_int (int_max_str_digits env) 10 s)
      | PyInt n \<Rightarrow> Inr n)"

definition empty_input_shape :: "int \<Rightarrow> shape_request" where
  "empty_input_shape wid =
     \<lparr>window = wid, operation = SO_Set, destination_kind = SK_Input, ordering = YXBanded,
      x_offset = 0, y_offset = 0, rectangles = []\<rparr>"

text \<open>Lines 20 to 52: the body of the \<open>try\<close> statement.\<close>

definition try_body :: "environment \<Rightarrow> window_id \<Rightarrow> bool io" where
  "try_body env window_id =
     io_bind (io_call Display (display_raises env)) (\<lambda>d.
     io_bind (io_eval (to_wid env window_id)) (\<lambda>wid.
     io_bind (io_call (CreateResourceObject ''window'' wid)
                (create_resource_object_raises env ''window'' wid)) (\<lambda>window.
     io_bind (io_query (HasExtension ''SHAPE'') (has_extension_result env ''SHAPE'')) (\<lambda>has_shape.
       if \<not> has_shape then
         io_bind (io_print ''Error: X SHAPE extension not available'') (\<lambda>u. io_return False)
       else
         io_bind (io_raise (shape_names_raise env)) (\<lambda>u.
         io_bind (io_call (ShapeRectangles (empty_input_shape wid))
                    (shape_rectangles_raises env (empty_input_shape wid))) (\<lambda>u.
         io_bind (io_call Sync (sync_raises env)) (\<lambda>u.
         io_bind (io_print (''Window '' @ py_hex wid @ '' is now click-through'')) (\<lambda>u.
         io_return True))))))))"

text \<open>Lines 17 to 56: the function, with its handler for every \<open>Exception\<close>.\<close>

definition make_click_through :: "environment \<Rightarrow> window_id \<Rightarrow> event list \<times> bool" where
  "make_click_through env window_id =
     (case try_body env window_id of
        (tr, Inr ok) \<Rightarrow> (tr, ok)
      | (tr, Inl e) \<Rightarrow> (tr @ [Print (''Error: '' @ str_exn e)], False))"

text \<open>
  The whole script run with \<open>sys.argv = argv\<close>: the guarded import (lines 10 to 15) and the
  \<open>__main__\<close> block (lines 58 to 68).  The result is what was observed and the exit code.
\<close>

definition script :: "environment \<Rightarrow> string list \<Rightarrow> event list \<times> int" where
  "script env argv =
     (if \<not> xlib_installed env then
        ([Print ''Error: python-xlib not installed. Install with: nix-shell -p python3Packages.xlib''], 1)
      else if length argv < 2 then
        ([Print ''Usage: make-click-through.py <window_id>'',
          Print ''  window_id can be decimal or hex (0x...)''], 1)
      else
        (case make_click_through env (PyStr (argv ! 1)) of
           (tr, ok) \<Rightarrow> (tr, if ok then 0 else 1)))"

text \<open>The shape requests of a run, and the lines it printed.\<close>

fun shape_requests :: "event list \<Rightarrow> shape_request list" where
  "shape_requests [] = []"
| "shape_requests (ShapeRectangles r # evs) = r # shape_requests evs"
| "shape_requests (ev # evs) = shape_requests evs"


subsection \<open>Test doubles\<close>

text \<open>
  A server with the SHAPE extension on which every call succeeds, under an interpreter with
  the default digit limit; and variations of it.
\<close>

definition good_server :: environment where
  "good_server =
     \<lparr>xlib_installed = True, int_max_str_digits = 4300, display_raises = None,
      create_resource_object_raises = (\<lambda>ty wid. None),
      has_extension_result = (\<lambda>name. Inr (name = ''SHAPE'')),
      shape_names_raise = None,
      shape_rectangles_raises = (\<lambda>req. None),
      sync_raises = None\<rparr>"

definition server_without_shape :: environment where
  "server_without_shape = good_server\<lparr>has_extension_result := (\<lambda>name. Inr False)\<rparr>"

definition server_rejecting_request :: environment where
  "server_rejecting_request =
     good_server\<lparr>shape_rectangles_raises := (\<lambda>req. Some (OtherException ''BadWindow''))\<rparr>"

definition without_xlib :: environment where
  "without_xlib = good_server\<lparr>xlib_installed := False\<rparr>"

section \<open>Positional notation\<close>

text \<open>
  The usual reading of a numeral, against which the conversion is compared: the digit at
  position \<open>i\<close> of \<open>n\<close> digits counts \<open>b ^ (n - 1 - i)\<close> times its value.  The decimal digits are
  \<open>0\<close> to \<open>9\<close>; the hexadecimal digits add \<open>a\<close> to \<open>f\<close> in either case.
\<close>

definition positional_value :: "nat \<Rightarrow> nat list \<Rightarrow> nat" where
  "positional_value b ds = (\<Sum>i<length ds. ds ! i * b ^ (length ds - Suc i))"

definition decimal_digit :: "char \<Rightarrow> nat option" where
  "decimal_digit = map_of
     [(CHR ''0'', 0), (CHR ''1'', 1), (CHR ''2'', 2), (CHR ''3'', 3), (CHR ''4'', 4),
      (CHR ''5'', 5), (CHR ''6'', 6), (CHR ''7'', 7), (CHR ''8'', 8), (CHR ''9'', 9)]"

definition hexadecimal_digit :: "char \<Rightarrow> nat option" where
  "hexadecimal_digit = map_of
     [(CHR ''0'', 0), (CHR ''1'', 1), (CHR ''2'', 2), (CHR ''3'', 3), (CHR ''4'', 4),
      (CHR ''5'', 5), (CHR ''6'', 6), (CHR ''7'', 7), (CHR ''8'', 8), (CHR ''9'', 9),
      (CHR ''a'', 10), (CHR ''b'', 11), (CHR ''c'', 12), (CHR ''d'', 13), (CHR ''e'', 14),
      (CHR ''f'', 15),
      (CHR ''A'', 10), (CHR ''B'', 11), (CHR ''C'', 12), (CHR ''D'', 13), (CHR ''E'', 14),
      (CHR ''F'', 15)]"

definition base10_value :: "string \<Rightarrow> nat" where
  "base10_value s = positional_value 10 (map (\<lambda>c. the (decimal_digit c)) s)"

definition base16_value :: "string \<Rightarrow> nat" where
  "base16_value s = positional_value 16 (map (\<lambda>c. the (hexadecimal_digit c)) s)"

section \<open>Facts about the conversion\<close>

lemmas py_int_eval =
  py_int_def transform_decimal_and_space_to_ascii_def is_ascii_def Py_ISSPACE_def
  strip_sign_def strip_prefix_def digit_value_def

lemmas message_eval =
  invalid_literal_def exceeds_limit_def str_nat_def to_digits.simps digit_char_def
  py_repr_def repr_quote_def repr_char_def hex_escape_def

lemma hexadecimal_digit_value:
  "hexadecimal_digit c = Some v \<Longrightarrow> digit_value c = v \<and> v < 16 \<and> c \<noteq> CHR ''_'' \<and> is_ascii c"
  by (auto simp add: hexadecimal_digit_def digit_value_def is_ascii_def split: if_splits)

lemma decimal_digit_value:
  "decimal_digit c = Some v \<Longrightarrow>
     digit_value c = v \<and> v < 10 \<and> c \<noteq> CHR ''_'' \<and> is_ascii c \<and> c \<noteq> CHR ''x''"
  by (auto simp add: decimal_digit_def digit_value_def is_ascii_def split: if_splits)



lemma foldl_positional:
  "foldl (\<lambda>a d. a * b + d) 0 ds = positional_value b ds"
proof (induction ds rule: rev_induct)
  case Nil
  show ?case by (simp add: positional_value_def)
next
  case (snoc d ds)
  have "positional_value b (ds @ [d]) = (\<Sum>i<length ds. ds ! i * b ^ (length ds - i)) + d"
    by (simp add: positional_value_def nth_append)
  also have "(\<Sum>i<length ds. ds ! i * b ^ (length ds - i)) =
             (\<Sum>i<length ds. (ds ! i * b ^ (length ds - Suc i)) * b)"
    by (rule sum.cong) (auto simp add: Suc_diff_Suc simp flip: power_Suc2)
  also have "\<dots> = positional_value b ds * b"
    by (simp add: positional_value_def sum_distrib_right)
  finally show ?case using snoc by simp
qed

lemma scan_digits_clean:
  "list_all (\<lambda>c. c \<noteq> CHR ''_'' \<and> digit_value c < b) s \<Longrightarrow>
   scan_digits b False s = Some (map digit_value s, [])"
  by (induction s) simp_all

lemma hexadecimal_digits:
  assumes "list_all (\<lambda>c. hexadecimal_digit c \<noteq> None) s"
  shows "list_all (\<lambda>c. c \<noteq> CHR ''_'' \<and> digit_value c < 16) s"
    and "list_all is_ascii s"
    and "map digit_value s = map (\<lambda>c. the (hexadecimal_digit c)) s"
proof -
  have *: "digit_value c = the (hexadecimal_digit c) \<and> digit_value c < 16 \<and> c \<noteq> CHR ''_'' \<and> is_ascii c"
    if "c \<in> set s" for c
  proof -
    from that assms obtain v where "hexadecimal_digit c = Some v"
      by (auto simp add: list_all_iff)
    then show ?thesis
      using hexadecimal_digit_value [of c v] by simp
  qed
  show "list_all (\<lambda>c. c \<noteq> CHR ''_'' \<and> digit_value c < 16) s"
    unfolding list_all_iff using * by blast
  show "list_all is_ascii s"
    unfolding list_all_iff using * by blast
  show "map digit_value s = map (\<lambda>c. the (hexadecimal_digit c)) s"
    by (rule map_cong [OF refl]) (use * in blast)
qed

lemma decimal_digits:
  assumes "list_all (\<lambda>c. decimal_digit c \<noteq> None) s"
  shows "list_all (\<lambda>c. c \<noteq> CHR ''_'' \<and> digit_value c < 10) s"
    and "list_all is_ascii s"
    and "map digit_value s = map (\<lambda>c. the (decimal_digit c)) s"
proof -
  have *: "digit_value c = the (decimal_digit c) \<and> digit_value c < 10 \<and> c \<noteq> CHR ''_'' \<and> is_ascii c"
    if "c \<in> set s" for c
  proof -
    from that assms obtain v where "decimal_digit c = Some v"
      by (auto simp add: list_all_iff)
    then show ?thesis
      using decimal_digit_value [of c v] by simp
  qed
  show "list_all (\<lambda>c. c \<noteq> CHR ''_'' \<and> digit_value c < 10) s"
    unfolding list_all_iff using * by blast
  show "list_all is_ascii s"
    unfolding list_all_iff using * by blast
  show "map digit_value s = map (\<lambda>c. the (decimal_digit c)) s"
    by (rule map_cong [OF refl]) (use * in blast)
qed

lemma not_space_or_sign:
  assumes "digit_value c < 16"
  shows "\<not> Py_ISSPACE c" and "c \<noteq> CHR ''+''" and "c \<noteq> CHR ''-''"
  using assms by (auto simp add: Py_ISSPACE_def digit_value_def Let_def split: if_splits)

lemma hex_prefixed:
  assumes "list_all (\<lambda>c. hexadecimal_digit c \<noteq> None) ds" and "ds \<noteq> []"
  shows "py_int lim 16 (''0x'' @ ds) = Inr (int (base16_value ds))"
proof -
  let ?u = "CHR ''0'' # CHR ''x'' # ds"
  obtain c cs where ds: "ds = c # cs" using assms(2) by (cases ds) auto
  note dig = hexadecimal_digits [OF assms(1)]
  have scan: "scan_digits 16 False ds = Some (map digit_value ds, [])"
    using dig(1) by (rule scan_digits_clean)
  have ascii: "list_all is_ascii ?u"
    using dig(2) by (simp add: is_ascii_def)
  have sign: "strip_sign (dropWhile Py_ISSPACE (transform_decimal_and_space_to_ascii ?u)) = (1, ?u)"
    using ascii by (simp add: transform_decimal_and_space_to_ascii_def strip_sign_def Py_ISSPACE_def)
  have c: "c \<noteq> CHR ''_''" using dig(1) ds by simp
  then have pre: "strip_prefix 16 ?u = ds"
    by (simp add: strip_prefix_def ds)
  have us: "take 1 ds \<noteq> ''_''" using c ds by simp
  have "py_int lim 16 ?u = Inr (int (positional_value 16 (map digit_value ds)))"
    using assms(2) us by (simp add: py_int_def sign pre scan foldl_positional)
  then show ?thesis
    by (simp add: base16_value_def dig(3))
qed

lemma decimal_plain:
  assumes "list_all (\<lambda>c. decimal_digit c \<noteq> None) s" and "s \<noteq> []"
  shows "py_int lim 10 s =
     (if 640 < length s \<and> 0 < lim \<and> lim < length s then Inl (exceeds_limit lim (length s))
      else Inr (int (base10_value s)))"
proof -
  obtain c cs where s: "s = c # cs" using assms(2) by (cases s) auto
  note dig = decimal_digits [OF assms(1)]
  have scan: "scan_digits 10 False s = Some (map digit_value s, [])"
    using dig(1) by (rule scan_digits_clean)
  from dig(1) s have c: "c \<noteq> CHR ''_''" "digit_value c < 10" by simp_all
  then have "digit_value c < 16" by simp
  note c' = not_space_or_sign [OF this]
  have sign: "strip_sign (dropWhile Py_ISSPACE (transform_decimal_and_space_to_ascii s)) = (1, s)"
    using dig(2) c' by (simp add: transform_decimal_and_space_to_ascii_def s strip_sign_def)
  have us: "take 1 s \<noteq> ''_''" using c s by simp
  have "py_int lim 10 s =
     (if 640 < length s \<and> 0 < lim \<and> lim < length s then Inl (exceeds_limit lim (length s))
      else Inr (int (positional_value 10 (map digit_value s))))"
    using assms(2) us by (simp add: py_int_def sign strip_prefix_def scan foldl_positional)
  then show ?thesis
    by (simp only: base10_value_def dig(3))
qed

lemma decimal_not_prefixed:
  assumes "list_all (\<lambda>c. decimal_digit c \<noteq> None) s"
  shows "\<not> startswith s ''0x''"
proof
  assume "startswith s ''0x''"
  then obtain r where "s = CHR ''0'' # CHR ''x'' # r"
    by (cases s; cases "tl s") (auto simp add: startswith_def)
  with assms show False by (simp add: decimal_digit_def)
qed








section \<open>Facts about the script\<close>

lemmas io_defs =
  io_bind_def io_call_def io_raise_def io_query_def io_eval_def io_print_def io_return_def

lemma try_body_unfold:
  "try_body env window_id =
     (case display_raises env of
        Some e \<Rightarrow> ([Display], Inl e)
      | None \<Rightarrow>
     (case to_wid env window_id of
        Inl e \<Rightarrow> ([Display], Inl e)
      | Inr wid \<Rightarrow>
     (case create_resource_object_raises env ''window'' wid of
        Some e \<Rightarrow> ([Display, CreateResourceObject ''window'' wid], Inl e)
      | None \<Rightarrow>
     (case has_extension_result env ''SHAPE'' of
        Inl e \<Rightarrow> ([Display, CreateResourceObject ''window'' wid, HasExtension ''SHAPE''], Inl e)
      | Inr has_shape \<Rightarrow>
         if \<not> has_shape then
           ([Display, CreateResourceObject ''window'' wid, HasExtension ''SHAPE'',
             Print ''Error: X SHAPE extension not available''], Inr False)
         else
     (case shape_names_raise env of
        Some e \<Rightarrow> ([Display, CreateResourceObject ''window'' wid, HasExtension ''SHAPE''], Inl e)
      | None \<Rightarrow>
     (case shape_rectangles_raises env (empty_input_shape wid) of
        Some e \<Rightarrow> ([Display, CreateResourceObject ''window'' wid, HasExtension ''SHAPE'',
                    ShapeRectangles (empty_input_shape wid)], Inl e)
      | None \<Rightarrow>
     (case sync_raises env of
        Some e \<Rightarrow> ([Display, CreateResourceObject ''window'' wid, HasExtension ''SHAPE'',
                    ShapeRectangles (empty_input_shape wid), Sync], Inl e)
      | None \<Rightarrow> ([Display, CreateResourceObject ''window'' wid, HasExtension ''SHAPE'',
                   ShapeRectangles (empty_input_shape wid), Sync,
                   Print (''Window '' @ py_hex wid @ '' is now click-through'')], Inr True))))))))"
  by (simp add: try_body_def io_defs split: option.split sum.split)

lemmas server_defs =
  good_server_def server_without_shape_def server_rejecting_request_def without_xlib_def


lemma to_wid_0x1a2b: "to_wid env (PyStr ''0x1a2b'') = Inr 6699"
  by (simp add: to_wid_def startswith_def py_int_eval)



lemma py_hex_6699: "py_hex 6699 = ''0x1a2b''"
  by (simp add: py_hex_def to_digits.simps digit_char_def)

lemma to_wid_decimal:
  assumes "list_all (\<lambda>c. decimal_digit c \<noteq> None) s" and "s \<noteq> []"
  shows "to_wid env (PyStr s) =
     (if 640 < length s \<and> 0 < int_max_str_digits env \<and> int_max_str_digits env < length s
      then Inl (exceeds_limit (int_max_str_digits env) (length s))
      else Inr (int (base10_value s)))"
  using decimal_not_prefixed [OF assms(1)] decimal_plain [OF assms]
  by (simp add: to_wid_def)

section \<open>The claims\<close>

text \<open>
  Claim C1.  When \<open>make_click_through\<close> returns \<open>True\<close>, the run consists of exactly these
  steps in this order: the connection, the window object, the SHAPE query, one
  \<open>shape_rectangles\<close> request with operation set, kind input, ordering banded, offset (0, 0) and
  no rectangle, one \<open>sync\<close>, and the confirmation line.  So one shape request is issued, and the
  connection is synchronised once, after the request and before success is reported.
\<close>

theorem success_one_request_then_sync:
  assumes "make_click_through env window_id = (tr, True)"
  shows "\<exists>wid. to_wid env window_id = Inr wid \<and>
     tr = [Display, CreateResourceObject ''window'' wid, HasExtension ''SHAPE'',
           ShapeRectangles \<lparr>window = wid, operation = SO_Set, destination_kind = SK_Input,
              ordering = YXBanded, x_offset = 0, y_offset = 0, rectangles = []\<rparr>,
           Sync, Print (''Window '' @ py_hex wid @ '' is now click-through'')] \<and>
     shape_requests tr = [\<lparr>window = wid, operation = SO_Set, destination_kind = SK_Input,
              ordering = YXBanded, x_offset = 0, y_offset = 0, rectangles = []\<rparr>] \<and>
     count_list tr Sync = 1"
  using assms
  by (auto simp add: make_click_through_def try_body_unfold empty_input_shape_def
       split: option.splits sum.splits if_splits)

theorem success_one_request_then_sync_witness:
  "make_click_through good_server (PyStr ''0x1a2b'') =
     ([Display, CreateResourceObject ''window'' 6699, HasExtension ''SHAPE'',
       ShapeRectangles \<lparr>window = 6699, operation = SO_Set, destination_kind = SK_Input,
          ordering = YXBanded, x_offset = 0, y_offset = 0, rectangles = []\<rparr>,
       Sync, Print ''Window 0x1a2b is now click-through''], True) \<and>
   (\<exists>wid. to_wid good_server (PyStr ''0x1a2b'') = Inr wid \<and>
      shape_requests (fst (make_click_through good_server (PyStr ''0x1a2b''))) =
        [\<lparr>window = wid, operation = SO_Set, destination_kind = SK_Input,
          ordering = YXBanded, x_offset = 0, y_offset = 0, rectangles = []\<rparr>] \<and>
      count_list (fst (make_click_through good_server (PyStr ''0x1a2b''))) Sync = 1)"
proof -
  have run: "make_click_through good_server (PyStr ''0x1a2b'') =
     ([Display, CreateResourceObject ''window'' 6699, HasExtension ''SHAPE'',
       ShapeRectangles \<lparr>window = 6699, operation = SO_Set, destination_kind = SK_Input,
          ordering = YXBanded, x_offset = 0, y_offset = 0, rectangles = []\<rparr>,
       Sync, Print ''Window 0x1a2b is now click-through''], True)"
    by (simp add: make_click_through_def try_body_unfold to_wid_0x1a2b py_hex_6699
          empty_input_shape_def good_server_def)
  from success_one_request_then_sync [OF run] run show ?thesis
    by auto
qed

text \<open>
  Claim C2.  Whatever the arguments, when the server does not report the SHAPE extension as
  available (the query answers false, or fails), the script exits with code 1 and no
  \<open>shape_rectangles\<close> request is issued.
\<close>

theorem no_shape_extension_no_request:
  assumes "has_extension_result env ''SHAPE'' \<noteq> Inr True"
  shows "snd (script env argv) = 1 \<and> shape_requests (fst (script env argv)) = []"
  using assms
  by (cases "has_extension_result env ''SHAPE''")
     (simp_all add: script_def make_click_through_def try_body_unfold
       split: option.split sum.split)

theorem no_shape_extension_no_request_witness:
  "has_extension_result server_without_shape ''SHAPE'' \<noteq> Inr True \<and>
   script server_without_shape [''make-click-through.py'', ''0x1a2b''] =
     ([Display, CreateResourceObject ''window'' 6699, HasExtension ''SHAPE'',
       Print ''Error: X SHAPE extension not available''], 1) \<and>
   snd (script server_without_shape [''make-click-through.py'', ''0x1a2b'']) = 1 \<and>
   shape_requests (fst (script server_without_shape [''make-click-through.py'', ''0x1a2b''])) = []"
proof -
  have h: "has_extension_result server_without_shape ''SHAPE'' \<noteq> Inr True"
    by (simp add: server_defs)
  have run: "script server_without_shape [''make-click-through.py'', ''0x1a2b''] =
     ([Display, CreateResourceObject ''window'' 6699, HasExtension ''SHAPE'',
       Print ''Error: X SHAPE extension not available''], 1)"
    by (simp add: script_def make_click_through_def try_body_unfold to_wid_0x1a2b server_defs)
  from no_shape_extension_no_request [OF h, of "[''make-click-through.py'', ''0x1a2b'']"] h run
  show ?thesis by simp
qed




text \<open>
  Claim C4, as the script has it.  A string made of \<open>0x\<close> in lower case and one or more
  hexadecimal digits converts to the base-16 value of those digits.
\<close>

theorem lowercase_hex_prefix_parses:
  assumes "ds \<noteq> []" and "list_all (\<lambda>c. hexadecimal_digit c \<noteq> None) ds"
  shows "to_wid env (PyStr (''0x'' @ ds)) = Inr (int (base16_value ds))"
  using hex_prefixed [OF assms(2,1)] by (simp add: to_wid_def startswith_def)

theorem lowercase_hex_prefix_parses_witness:
  "to_wid good_server (PyStr ''0x1a2B'') = Inr (int (base16_value ''1a2B'')) \<and>
   base16_value ''1a2B'' = 6699"
proof -
  have "list_all (\<lambda>c. hexadecimal_digit c \<noteq> None) ''1a2B''"
    by (simp add: hexadecimal_digit_def)
  from lowercase_hex_prefix_parses [OF _ this, of good_server]
  have "to_wid good_server (PyStr ''0x1a2B'') = Inr (int (base16_value ''1a2B''))"
    by simp
  moreover have "base16_value ''1a2B'' = 6699"
    by (simp add: base16_value_def hexadecimal_digit_def flip: foldl_positional)
  ultimately show ?thesis by simp
qed

text \<open>With the prefix in upper case the string takes the decimal branch and is rejected.\<close>

theorem uppercase_hex_prefix_rejected:
  "to_wid good_server (PyStr ''0X1A'') =
     Inl (ValueError (''invalid literal for int() with base 10: '' @ [CHR 0x27] @ ''0X1A'' @ [CHR 0x27]))"
  by (simp add: to_wid_def startswith_def py_int_eval message_eval Let_def)

text \<open>
  Claim C5, as the interpreter has it.  A non-empty string of decimal digits converts to its
  base-10 value when it has at most 640 digits, or the interpreter's digit limit is switched
  off, or it has no more digits than the limit.
\<close>

theorem decimal_within_limit_parses:
  assumes "s \<noteq> []" and "list_all (\<lambda>c. decimal_digit c \<noteq> None) s"
    and "length s \<le> 640 \<or> int_max_str_digits env = 0 \<or> length s \<le> int_max_str_digits env"
  shows "to_wid env (PyStr s) = Inr (int (base10_value s))"
  using to_wid_decimal [OF assms(2,1), of env] assms(3) by auto

theorem decimal_within_limit_parses_witness:
  "to_wid good_server (PyStr ''12345'') = Inr (int (base10_value ''12345'')) \<and>
   base10_value ''12345'' = 12345"
proof -
  have "list_all (\<lambda>c. decimal_digit c \<noteq> None) ''12345''"
    by (simp add: decimal_digit_def)
  from decimal_within_limit_parses [OF _ this, of good_server]
  have "to_wid good_server (PyStr ''12345'') = Inr (int (base10_value ''12345''))"
    by simp
  moreover have "base10_value ''12345'' = 12345"
    by (simp add: base10_value_def decimal_digit_def flip: foldl_positional)
  ultimately show ?thesis by simp
qed

text \<open>Under the default limit of 4300 digits, a string of 4301 digits is rejected.\<close>

theorem decimal_beyond_limit_rejected:
  "to_wid good_server (PyStr (replicate 4301 (CHR ''1''))) =
     Inl (ValueError ''Exceeds the limit (4300 digits) for integer string conversion: value has 4301 digits; use sys.set_int_max_str_digits() to increase the limit'')"
proof -
  have "list_all (\<lambda>c. decimal_digit c \<noteq> None) (replicate 4301 (CHR ''1''))"
    by (simp add: list_all_iff decimal_digit_def)
  from to_wid_decimal [OF this, of good_server] show ?thesis
    by (simp add: good_server_def message_eval)
qed





text \<open>
  Claim C8.  With the package importable and no argument after the program name, the script
  prints the two usage lines and exits with code 1; it calls nothing, so no connection is
  attempted.
\<close>

theorem missing_argument_usage:
  assumes "xlib_installed env" and "length argv < 2"
  shows "script env argv =
     ([Print ''Usage: make-click-through.py <window_id>'',
       Print ''  window_id can be decimal or hex (0x...)''], 1)"
  using assms by (simp add: script_def)

theorem missing_argument_usage_witness:
  "script good_server [''make-click-through.py''] =
     ([Print ''Usage: make-click-through.py <window_id>'',
       Print ''  window_id can be decimal or hex (0x...)''], 1)"
  using missing_argument_usage [of good_server "[''make-click-through.py'']"]
  by (simp add: good_server_def)

text \<open>
  Claim C9.  The conversion accepts decimal strings with a sign, with surrounding white space
  and with underscores between digits: \<open>-5\<close> gives the negative handle \<open>-5\<close>.
\<close>

theorem lenient_decimal_forms_accepted:
  "to_wid env (PyStr ''-5'') = Inr (- 5) \<and>
   to_wid env (PyStr ''+5'') = Inr 5 \<and>
   to_wid env (PyStr '' 5 '') = Inr 5 \<and>
   to_wid env (PyStr ''1_000'') = Inr 1000"
  by (simp add: to_wid_def startswith_def py_int_eval)

theorem lenient_decimal_forms_accepted_witness:
  "to_wid good_server (PyStr ''-5'') = Inr (- 5) \<and> (- 5 :: int) < 0"
  using lenient_decimal_forms_accepted [of good_server] by simp

text \<open>
  Claim C10.  When the \<open>Xlib\<close> package cannot be imported, the script prints one line that
  starts with \<open>Error:\<close> and exits with code 1, whatever its arguments; nothing is parsed and
  nothing is called.
\<close>

theorem import_guard_exits:
  assumes "\<not> xlib_installed env"
  shows "script env argv =
     ([Print ''Error: python-xlib not installed. Install with: nix-shell -p python3Packages.xlib''], 1)"
  using assms by (simp add: script_def)

theorem import_guard_exits_witness:
  "script without_xlib [''make-click-through.py'', ''0x1a2b''] =
     ([Print ''Error: python-xlib not installed. Install with: nix-shell -p python3Packages.xlib''], 1)"
  using import_guard_exits [of without_xlib "[''make-click-through.py'', ''0x1a2b'']"]
  by (simp add: server_defs)

end
